theory Spec2Isabelle
  imports Complex_Main "HOL-Library.Sublist" "HOL-Library.Log_Nat"
begin

section \<open>Shared data: track requests, call outcomes, the file system\<close>

text \<open>
  A track is the metadata dictionary handed around by every module. The keys
  \<open>artist\<close>, \<open>name\<close> and \<open>album\<close> are read with \<open>track['...']\<close> everywhere and
  are always present; \<open>duration_ms\<close> is tested with \<open>in\<close> by the Jamendo matcher
  and \<open>track_number\<close> is read with \<open>.get\<close>, so both are optional.
\<close>

record track =
  artist :: string
  name :: string
  album :: string
  duration_ms :: "int option"
  track_number :: "int option"

text \<open>
  A Python call either returns a value or raises an exception of class
  \<open>Exception\<close>; the string is the name of the exception.
\<close>

datatype 'a outcome = Returns 'a | Raises string

text \<open>
  The part of the file system the code observes: which paths exist and the
  size in bytes that \<open>stat().st_size\<close> reports for each.
\<close>

type_synonym filesystem = "string \<rightharpoonup> nat"

text \<open>\<open>d.get(key, default)\<close> on a key that may be missing.\<close>

definition get_or :: "'a option \<Rightarrow> 'a \<Rightarrow> 'a" where
  "get_or v d = (case v of Some x \<Rightarrow> x | None \<Rightarrow> d)"

section \<open>Python floats\<close>

text \<open>
  A Python float is an IEEE binary64 value: a finite one is the rational it
  denotes, and there are two infinities and NaN.
\<close>

datatype pyfloat = Finite rat | PosInf | NegInf | NaN

text \<open>
  \<open>pow2 e\<close> is 2 to the power \<open>e\<close>, and \<open>exponent x\<close> is the largest \<open>e\<close>
  with \<open>pow2 e \<le> x\<close>, for a positive \<open>x\<close>.
\<close>

definition pow2 :: "int \<Rightarrow> rat" where
  "pow2 e = (if 0 \<le> e then 2 ^ nat e else 1 / 2 ^ nat (- e))"

definition exponent :: "rat \<Rightarrow> int" where
  "exponent x =
     (case quotient_of x of
        (p, q) \<Rightarrow> (let e0 = bitlen p - bitlen q in if pow2 e0 \<le> x then e0 else e0 - 1))"

definition round_half_even :: "rat \<Rightarrow> int" where
  "round_half_even q =
     (let f = \<lfloor>q\<rfloor>; r = q - of_int f
      in if r < 1 / 2 then f else if r > 1 / 2 then f + 1
         else if even f then f else f + 1)"

text \<open>
  The float that an exact result is rounded to: the nearest multiple of the
  unit in the last place of 53 binary digits, ties to the even one, with the
  exponent no smaller than that of the subnormal numbers, and an infinity when
  the rounded magnitude reaches 2 to the power 1024. Every arithmetic operation
  on floats returns the rounded exact result, and a decimal literal denotes the
  rounded decimal.
\<close>

definition round_double :: "rat \<Rightarrow> pyfloat" where
  "round_double x =
     (if x = 0 then Finite 0
      else (let a = \<bar>x\<bar>;
                e = max (exponent a) (- 1022)
            in if 1023 < e then (if 0 < x then PosInf else NegInf)
               else (let ulp = pow2 (e - 52);
                         n = round_half_even (a / ulp)
                     in if e = 1023 \<and> 9007199254740992 \<le> n
                        then (if 0 < x then PosInf else NegInf)
                        else Finite (if 0 < x then of_int n * ulp else - (of_int n * ulp)))))"

text \<open>
  \<open>x <= y\<close> and \<open>x > 0\<close> on floats, and \<open>n >= y\<close> for an integer and a
  float, which Python compares exactly.
\<close>

fun float_le :: "pyfloat \<Rightarrow> pyfloat \<Rightarrow> bool" where
  "float_le NaN y = False"
| "float_le x NaN = False"
| "float_le NegInf y = True"
| "float_le x PosInf = True"
| "float_le (Finite a) (Finite b) = (a \<le> b)"
| "float_le x y = False"

fun float_positive :: "pyfloat \<Rightarrow> bool" where
  "float_positive (Finite a) = (0 < a)"
| "float_positive PosInf = True"
| "float_positive x = False"

fun int_ge_float :: "int \<Rightarrow> pyfloat \<Rightarrow> bool" where
  "int_ge_float n (Finite b) = (b \<le> of_int n)"
| "int_ge_float n NegInf = True"
| "int_ge_float n x = False"

text \<open>
  \<open>x / d\<close> and \<open>x * c\<close> for a float \<open>x\<close> and a finite float \<open>d\<close> or \<open>c\<close>
  that is not zero; an integer operand is converted first, exactly for the
  constants used here.
\<close>

fun float_div :: "pyfloat \<Rightarrow> rat \<Rightarrow> pyfloat" where
  "float_div (Finite a) d = round_double (a / d)"
| "float_div PosInf d = (if 0 < d then PosInf else NegInf)"
| "float_div NegInf d = (if 0 < d then NegInf else PosInf)"
| "float_div NaN d = NaN"

fun float_mul :: "pyfloat \<Rightarrow> rat \<Rightarrow> pyfloat" where
  "float_mul (Finite a) c = round_double (a * c)"
| "float_mul PosInf c = (if 0 < c then PosInf else NegInf)"
| "float_mul NegInf c = (if 0 < c then NegInf else PosInf)"
| "float_mul NaN c = NaN"

text \<open>
  \<open>n / m\<close> for two integers: the rounded quotient, or \<open>OverflowError\<close> when
  it is too large for a float. \<open>m\<close> is not zero.
\<close>

definition true_divide :: "int \<Rightarrow> int \<Rightarrow> rat outcome" where
  "true_divide n m =
     (case round_double (of_int n / of_int m) of
        Finite q \<Rightarrow> Returns q
      | PosInf \<Rightarrow> Raises ''OverflowError''
      | NegInf \<Rightarrow> Raises ''OverflowError''
      | NaN \<Rightarrow> Raises ''OverflowError'')"

text \<open>The finite float that a decimal literal denotes.\<close>

definition literal :: "rat \<Rightarrow> rat" where
  "literal x = (case round_double x of Finite q \<Rightarrow> q | PosInf \<Rightarrow> 0 | NegInf \<Rightarrow> 0 | NaN \<Rightarrow> 0)"

section \<open>download\_tracker.py: the ledger of completed downloads\<close>

text \<open>
  One entry of \<open>completed_tracks\<close>. \<open>is_downloaded\<close> reads the size with
  \<open>.get('size')\<close> and \<open>_count_formats\<close> reads the format with
  \<open>.get('format', 'unknown')\<close>, so an entry loaded from the tracker file may
  lack either key.
\<close>

record tracked_info =
  info_artist :: string
  info_name :: string
  info_album :: string
  info_file :: string
  info_size :: "nat option"
  info_format :: "string option"

text \<open>
  The tracker object: the in-memory dictionary, and the documents that
  \<open>_save_tracker\<close> has dumped to \<open>.download_tracker.json\<close>, oldest first.
  \<open>_save_tracker\<close> swallows every exception of the write, so a call never
  changes the in-memory dictionary and never raises.
\<close>

record tracker =
  completed_tracks :: "string \<rightharpoonup> tracked_info"
  tracker_file_writes :: "(string \<rightharpoonup> tracked_info) list"

definition save_tracker :: "tracker \<Rightarrow> tracker" where
  "save_tracker tr =
     tr\<lparr>tracker_file_writes := tracker_file_writes tr @ [completed_tracks tr]\<rparr>"

text \<open>
  \<open>_get_track_id\<close>: the hex digest of \<open>artist|name|album\<close>. The digest
  function of \<open>hashlib\<close> is a parameter \<open>md5\<close>; nothing below depends on which
  function it is, so collisions are covered.
\<close>

definition get_track_id :: "(string \<Rightarrow> string) \<Rightarrow> track \<Rightarrow> string" where
  "get_track_id md5 t = md5 (artist t @ ''|'' @ name t @ ''|'' @ album t)"

definition is_downloaded ::
  "(string \<Rightarrow> string) \<Rightarrow> tracker \<Rightarrow> filesystem \<Rightarrow> track \<Rightarrow> string \<Rightarrow> bool" where
  "is_downloaded md5 tr fs t file_path =
     (let track_id = get_track_id md5 t in
      case fs file_path of
        None \<Rightarrow> False
      | Some file_size \<Rightarrow>
          (case completed_tracks tr track_id of
             Some tracked \<Rightarrow>
               (if info_size tracked = Some file_size then True else False)
           | None \<Rightarrow> False))"

text \<open>
  \<open>pathlib\<close>'s \<open>name\<close> and \<open>suffix\<close>: the final component of the path, and
  its part from the last dot on when that dot is neither the first nor the last
  character of the name. \<open>path_format\<close> is \<open>file_path.suffix[1:]\<close>.
\<close>

definition path_name :: "string \<Rightarrow> string" where
  "path_name p = rev (takeWhile (\<lambda>c. c \<noteq> CHR ''/'') (rev p))"

definition path_format :: "string \<Rightarrow> string" where
  "path_format p =
     (let nm = path_name p;
          ext = rev (takeWhile (\<lambda>c. c \<noteq> CHR ''.'') (rev nm))
      in if CHR ''.'' \<in> set nm \<and> ext \<noteq> [] \<and> length ext + 1 < length nm
         then ext else [])"

text \<open>
  \<open>mark_downloaded\<close>: the entry is built first, and \<open>file_path.stat()\<close> raises
  when the file does not exist, before the dictionary is touched.
\<close>

definition mark_downloaded ::
  "(string \<Rightarrow> string) \<Rightarrow> tracker \<Rightarrow> filesystem \<Rightarrow> track \<Rightarrow> string \<Rightarrow> tracker outcome" where
  "mark_downloaded md5 tr fs t file_path =
     (let track_id = get_track_id md5 t in
      case fs file_path of
        None \<Rightarrow> Raises ''FileNotFoundError''
      | Some file_size \<Rightarrow>
          Returns (save_tracker
            (tr\<lparr>completed_tracks := (completed_tracks tr)(track_id \<mapsto>
                 \<lparr>info_artist = artist t, info_name = name t, info_album = album t,
                  info_file = file_path, info_size = Some file_size,
                  info_format = Some (path_format file_path)\<rparr>)\<rparr>)))"

definition remove_track :: "(string \<Rightarrow> string) \<Rightarrow> tracker \<Rightarrow> track \<Rightarrow> tracker" where
  "remove_track md5 tr t =
     (let track_id = get_track_id md5 t in
      if track_id \<in> dom (completed_tracks tr)
      then save_tracker (tr\<lparr>completed_tracks := (completed_tracks tr)(track_id := None)\<rparr>)
      else tr)"

section \<open>Strings as Python uses them\<close>

text \<open>
  \<open>str.lower()\<close> on the letters A to Z; every other character is left as it
  is.
\<close>

definition lower_char :: "char \<Rightarrow> char" where
  "lower_char c =
     (case map_of (zip ''ABCDEFGHIJKLMNOPQRSTUVWXYZ'' ''abcdefghijklmnopqrstuvwxyz'') c of
        Some d \<Rightarrow> d | None \<Rightarrow> c)"

definition lower :: "string \<Rightarrow> string" where
  "lower s = map lower_char s"

text \<open>
  \<open>s.startswith(prefix)\<close> and the substring test \<open>sub in s\<close>; the empty
  string is a substring of every string.
\<close>

fun startswith :: "string \<Rightarrow> string \<Rightarrow> bool" where
  "startswith s [] = True"
| "startswith [] (p # ps) = False"
| "startswith (c # cs) (p # ps) = (p = c \<and> startswith cs ps)"

fun str_in :: "string \<Rightarrow> string \<Rightarrow> bool" where
  "str_in sub [] = (sub = [])"
| "str_in sub (c # cs) = (startswith (c # cs) sub \<or> str_in sub cs)"

text \<open>\<open>s.replace(old, new)\<close> for single characters, and \<open>s.strip(chars)\<close>.\<close>

definition replace :: "char \<Rightarrow> char \<Rightarrow> string \<Rightarrow> string" where
  "replace old new s = map (\<lambda>c. if c = old then new else c) s"

definition strip :: "string \<Rightarrow> string \<Rightarrow> string" where
  "strip chars s =
     rev (dropWhile (\<lambda>c. c \<in> set chars) (rev (dropWhile (\<lambda>c. c \<in> set chars) s)))"

text \<open>
  A \<open>pathlib\<close> path on a POSIX system: its root (empty, one separator, or
  two when the string starts with exactly two) and its components. Empty
  components and single dots are dropped when a string is parsed.
\<close>

type_synonym path = "string \<times> string list"

fun split_on :: "char \<Rightarrow> string \<Rightarrow> string list" where
  "split_on sep [] = [[]]"
| "split_on sep (c # cs) =
     (if c = sep then [] # split_on sep cs
      else (case split_on sep cs of
              p # ps \<Rightarrow> (c # p) # ps
            | [] \<Rightarrow> [[c]]))"

definition path_parts :: "string \<Rightarrow> string list" where
  "path_parts s = filter (\<lambda>p. p \<noteq> [] \<and> p \<noteq> ''.'') (split_on CHR ''/'' s)"

definition path_root :: "string \<Rightarrow> string" where
  "path_root s =
     (let n = length (takeWhile (\<lambda>c. c = CHR ''/'') s)
      in if n = 0 then [] else if n = 2 then ''//'' else ''/'')"

definition Path :: "string \<Rightarrow> path" where
  "Path s = (path_root s, path_parts s)"

text \<open>
  \<open>p / q\<close>: an absolute right operand replaces the left one, a relative one
  adds its components. \<open>str(p)\<close>: the root and the components joined by
  separators, a single dot for the empty path.
\<close>

definition path_div :: "path \<Rightarrow> string \<Rightarrow> path" where
  "path_div p q = (if path_root q \<noteq> [] then Path q else (fst p, snd p @ path_parts q))"

fun join_parts :: "string list \<Rightarrow> string" where
  "join_parts [] = []"
| "join_parts [p] = p"
| "join_parts (p # ps) = p @ ''/'' @ join_parts ps"

definition path_str :: "path \<Rightarrow> string" where
  "path_str p = (if fst p = [] \<and> snd p = [] then ''.'' else fst p @ join_parts (snd p))"

section \<open>The matchers of jamendo\_client.py and internetarchive\_client.py\<close>

text \<open>
  One Jamendo search result. Every key is read with \<open>.get\<close>: \<open>id\<close>,
  \<open>artist_name\<close> and \<open>name\<close> (default the empty string) and \<open>duration\<close>
  in seconds (default 0). Durations are exact rationals here; the source
  computes with floats.
\<close>

record jamendo_result =
  jam_id :: "string option"
  artist_name :: "string option"
  jam_name :: "string option"
  duration :: "rat option"

text \<open>
  The score that the loop body of \<open>JamendoClient._find_best_match\<close> gives one
  result, in its three parts: artist, title, duration.
\<close>

definition jamendo_artist_points :: "track \<Rightarrow> jamendo_result \<Rightarrow> int" where
  "jamendo_artist_points t r =
     (let artist' = lower (artist t);
          result_artist = lower (get_or (artist_name r) [])
      in if artist' = result_artist then 50
         else if str_in artist' result_artist \<or> str_in result_artist artist' then 30
         else 0)"

definition jamendo_title_points :: "track \<Rightarrow> jamendo_result \<Rightarrow> int" where
  "jamendo_title_points t r =
     (let title = lower (name t);
          result_title = lower (get_or (jam_name r) [])
      in if title = result_title then 50
         else if str_in title result_title \<or> str_in result_title title then 30
         else 0)"

text \<open>
  \<open>duration_diff = abs(spotify_duration - jamendo_duration)\<close>, for a track
  whose \<open>duration_ms\<close> is \<open>ms\<close>.
\<close>

definition duration_diff :: "int \<Rightarrow> jamendo_result \<Rightarrow> rat" where
  "duration_diff ms r = \<bar>of_int ms / 1000 - get_or (duration r) 0\<bar>"

definition jamendo_duration_points :: "track \<Rightarrow> jamendo_result \<Rightarrow> int" where
  "jamendo_duration_points t r =
     (case duration_ms t of
        None \<Rightarrow> 0
      | Some ms \<Rightarrow> if duration_diff ms r \<le> 10 then 20 else 0)"

definition jamendo_score :: "track \<Rightarrow> jamendo_result \<Rightarrow> int" where
  "jamendo_score t r =
     jamendo_artist_points t r + jamendo_title_points t r + jamendo_duration_points t r"

text \<open>
  The selection loop, which both clients write in the same way: the running
  pair \<open>(best_score, best_match)\<close> starts at \<open>(0, None)\<close> and is replaced when a
  score is strictly greater; the match is returned when the best score is at
  least 60.
\<close>

fun best_loop :: "('c \<Rightarrow> int) \<Rightarrow> 'c list \<Rightarrow> int \<times> 'c option \<Rightarrow> int \<times> 'c option" where
  "best_loop score [] best = best"
| "best_loop score (r # rs) (best_score, best_match) =
     (if score r > best_score then best_loop score rs (score r, Some r)
      else best_loop score rs (best_score, best_match))"

definition select_best :: "('c \<Rightarrow> int) \<Rightarrow> 'c list \<Rightarrow> 'c option" where
  "select_best score rs =
     (case best_loop score rs (0, None) of
        (best_score, best_match) \<Rightarrow> if best_score \<ge> 60 then best_match else None)"

definition jamendo_find_best_match :: "track \<Rightarrow> jamendo_result list \<Rightarrow> jamendo_result option" where
  "jamendo_find_best_match t rs = select_best (jamendo_score t) rs"

text \<open>
  One Internet Archive search document. \<open>format\<close> is tested with
  \<open>isinstance(formats, list)\<close>: it is a list of format names or something
  else, and the default of \<open>.get\<close> is the empty list.
\<close>

datatype ia_format = FormatList "string list" | FormatText string

record ia_item =
  item_identifier :: "string option"
  item_title :: "string option"
  item_creator :: "string option"
  item_format :: "ia_format option"

definition ia_score :: "track \<Rightarrow> ia_item \<Rightarrow> int" where
  "ia_score t item =
     (let artist' = lower (artist t);
          title = lower (name t);
          item_title' = lower (get_or (item_title item) []);
          item_creator' = lower (get_or (item_creator item) [])
      in (if str_in artist' item_creator' \<or> str_in artist' item_title' then 50 else 0)
       + (if str_in title item_title' then 50 else 0)
       + (case get_or (item_format item) (FormatList []) of
            FormatList formats \<Rightarrow> if ''Flac'' \<in> set formats then 20 else 0
          | FormatText other \<Rightarrow> 0))"

definition ia_find_best_match :: "track \<Rightarrow> ia_item list \<Rightarrow> ia_item option" where
  "ia_find_best_match t items = select_best (ia_score t) items"

section \<open>downloader.py: output paths and the completeness check\<close>

text \<open>The characters \<open><>:"/\|?*\<close> that \<open>_sanitize_filename\<close> replaces.\<close>

definition invalid_chars :: string where
  "invalid_chars = [CHR ''<'', CHR ''>'', CHR '':'', CHR 0x22, CHR ''/'', CHR 0x5C,
                    CHR ''|'', CHR ''?'', CHR ''*'']"

definition sanitize_filename :: "string \<Rightarrow> string" where
  "sanitize_filename filename =
     strip ''. '' (fold (\<lambda>char f. replace char CHR ''_'' f) invalid_chars filename)"

text \<open>
  \<open>_get_output_path\<close>, as the string of the path it returns. The template
  \<open>filename_format\<close> of the configuration is applied with \<open>str.format\<close>; it
  is the function \<open>filename_format\<close> of the sanitized artist, title, album and
  the track number.
\<close>

record organization =
  organize_by_artist :: "bool option"
  filename_format :: "string \<Rightarrow> string \<Rightarrow> string \<Rightarrow> int \<Rightarrow> string"

definition get_output_path :: "string \<Rightarrow> organization \<Rightarrow> track \<Rightarrow> string" where
  "get_output_path output_dir org t =
     (let artist' = sanitize_filename (artist t);
          album' = sanitize_filename (album t);
          title = sanitize_filename (name t);
          track_number' = get_or (track_number t) 1;
          base_path = (if get_or (organize_by_artist org) True
                       then path_div (path_div (Path output_dir) artist') album'
                       else Path output_dir);
          filename = filename_format org artist' title album' track_number'
      in path_str (path_div base_path filename))"

text \<open>
  What \<open>mutagen.File(file_path)\<close> does: it raises, it returns \<open>None\<close> for a
  file it cannot identify, or it returns an object whose \<open>info.length\<close>, when
  the attribute exists, is the duration in seconds, a float.
\<close>

datatype mutagen_file = FileRaises string | Unidentified | AudioFile "pyfloat option"

text \<open>
  \<open>_is_file_complete\<close>, in the float arithmetic of the source. Every exception
  inside the \<open>try\<close> ends in the handler, which keeps the file when it is
  larger than 500000 bytes: a missing \<open>duration_ms\<close> key, a \<open>duration_ms\<close>
  too large to divide into a float, and a division by an expected duration of
  zero are such exceptions.
\<close>

definition validation_failed :: "nat \<Rightarrow> bool" where
  "validation_failed file_size = (file_size > 500000)"

definition is_file_complete :: "mutagen_file \<Rightarrow> nat \<Rightarrow> track \<Rightarrow> bool" where
  "is_file_complete audio_file file_size t =
     (case audio_file of
        FileRaises e \<Rightarrow> validation_failed file_size
      | Unidentified \<Rightarrow> False
      | AudioFile info_length \<Rightarrow>
          (if (case info_length of Some l \<Rightarrow> float_positive l | None \<Rightarrow> False)
           then (case duration_ms t of
                   None \<Rightarrow> validation_failed file_size
                 | Some ms \<Rightarrow>
                     (case true_divide ms 1000 of
                        Raises e \<Rightarrow> validation_failed file_size
                      | Returns expected_duration \<Rightarrow>
                          (if expected_duration = 0 then validation_failed file_size
                           else (let file_duration = get_or info_length NaN;
                                     duration_ratio = float_div file_duration expected_duration
                                 in if float_le (Finite (literal 0.85)) duration_ratio
                                       \<and> float_le duration_ratio (Finite (literal 1.15))
                                    then True else False))))
           else (case duration_ms t of
                   None \<Rightarrow> validation_failed file_size
                 | Some ms \<Rightarrow>
                     (case true_divide ms 1000 of
                        Raises e \<Rightarrow> validation_failed file_size
                      | Returns seconds \<Rightarrow>
                          (let min_expected_size = float_mul (float_div (Finite seconds) 60) 500000
                           in if int_ge_float (int file_size)
                                   (float_mul min_expected_size (literal 0.7))
                              then True else False)))))"

section \<open>Fetching: the download\_track of the two free providers\<close>

text \<open>
  The HTTP response as \<open>download_track\<close> reads it: whether
  \<open>raise_for_status\<close> raises, the \<open>content-type\<close> header, the outcome of
  \<open>int(response.headers.get('content-length', 0))\<close>, the chunks that
  \<open>iter_content\<close> yields, and the exception that ends the stream early, if
  any.
\<close>

record response =
  raise_for_status :: "string option"
  content_type :: "string option"
  total_size :: "int outcome"
  iter_content :: "string list"
  iter_content_error :: "string option"

text \<open>
  What the network and the disk do during one \<open>download_track\<close>: \<open>mkdir\<close>,
  the \<open>GET\<close> of the file, \<open>open(output_file, 'wb')\<close> and \<open>unlink\<close> each
  succeed or raise.
\<close>

record http =
  mkdir_error :: "string option"
  get_file :: "response outcome"
  open_error :: "string option"
  unlink_error :: "string option"

text \<open>
  The output file of both clients: \<open>Path(output_dir) / artist\<close>, then
  \<open>output_path / f"{artist} - {title}.flac"\<close>, from the raw metadata; the
  functions return \<open>str(output_file)\<close>.
\<close>

definition jamendo_output_file :: "string \<Rightarrow> track \<Rightarrow> string" where
  "jamendo_output_file output_dir t =
     (let output_path = path_div (Path output_dir) (artist t)
      in path_str (path_div output_path (artist t @ '' - '' @ name t @ ''.flac'')))"

definition ia_output_file :: "string \<Rightarrow> track \<Rightarrow> string" where
  "ia_output_file output_dir t =
     (let output_path = path_div (Path output_dir) (artist t)
      in path_str (path_div output_path (artist t @ '' - '' @ name t @ ''.flac'')))"

text \<open>
  \<open>JamendoClient.download_track\<close>. The whole body is inside \<open>try\<close>, and the
  handler returns \<open>None\<close>: the function never raises. Opening the file for
  writing truncates it, so its size afterwards is the number of bytes written;
  a stream that breaks leaves the partial file behind.
\<close>

definition jamendo_download_track ::
  "http \<Rightarrow> filesystem \<Rightarrow> jamendo_result \<Rightarrow> string \<Rightarrow> track \<Rightarrow> string option \<times> filesystem" where
  "jamendo_download_track net fs jamendo_track output_dir t =
     (if get_or (jam_id jamendo_track) [] = [] then (None, fs)
      else
        (let output_file = jamendo_output_file output_dir t in
         if mkdir_error net \<noteq> None then (None, fs)
         else
           (case get_file net of
              Raises e \<Rightarrow> (None, fs)
            | Returns response \<Rightarrow>
                (if raise_for_status response \<noteq> None then (None, fs)
                 else if \<not> str_in ''audio'' (get_or (content_type response) []) then (None, fs)
                 else
                   (case total_size response of
                      Raises e \<Rightarrow> (None, fs)
                    | Returns announced \<Rightarrow>
                        (if open_error net \<noteq> None then (None, fs)
                         else
                           (let written = length (concat (filter (\<lambda>chunk. chunk \<noteq> [])
                                                            (iter_content response)));
                                fs1 = fs(output_file \<mapsto> written)
                            in if iter_content_error response \<noteq> None then (None, fs1)
                               else if written < 100000
                               then (if unlink_error net \<noteq> None then (None, fs1)
                                     else (None, fs1(output_file := None)))
                               else (Some output_file, fs1))))))))"

section \<open>multi\_source\_downloader.py: the fallback orchestrator\<close>

text \<open>
  A download source as the orchestrator uses it: a search that returns a
  candidate or a falsy value (\<open>None\<close> here), and a download of a candidate that
  returns a path or \<open>None\<close>. Either call may raise. Both depend on the state
  \<open>'w\<close> of the world outside (network, disk, clock) and change it, so that two
  calls with the same arguments need not agree. The number passed to the search
  is the \<open>retry_count\<close> of the YouTube searcher; the other searches get 0.
\<close>

record ('w, 'c) source =
  search_track :: "track \<Rightarrow> nat \<Rightarrow> 'w \<Rightarrow> 'c option outcome \<times> 'w"
  download_track :: "'c \<Rightarrow> track \<Rightarrow> 'w \<Rightarrow> string option outcome \<times> 'w"

text \<open>
  What one call of \<open>download\<close> does that can be observed from outside: the
  lines it logs (attempting a source, success, failure, error, all sources
  failed) and the calls it makes to the sources.
\<close>

datatype event =
    Attempting string
  | Succeeded string
  | Failed string
  | Errored string string
  | AllFailed
  | Search string nat
  | Fetch string

text \<open>
  The state threaded through a download: the world, the attribute
  \<open>last_source\<close> of the downloader, and the events so far.
\<close>

record 'w run =
  world :: 'w
  last_source :: "string option"
  calls :: "event list"

text \<open>
  The configuration keys that \<open>__init__\<close> and \<open>_initialize_sources\<close> read,
  each possibly missing, and what the installation provides: the constructor of
  each source (which may raise) and the import of \<open>DEEMIX_AVAILABLE\<close>.
\<close>

record config =
  internetarchive_enabled :: "bool option"
  jamendo_enabled :: "bool option"
  deezer_enabled :: "bool option"
  deezer_arl_token :: "string option"
  download_source_priority :: "string list option"

record ('w, 'c) installation =
  new_source :: "string \<Rightarrow> ('w, 'c) source outcome"
  deemix_available :: "bool outcome"

record ('w, 'c) multi_source_downloader =
  sources :: "string \<rightharpoonup> ('w, 'c) source"
  source_priority :: "string list"

text \<open>
  \<open>_initialize_sources\<close>: each source is constructed inside its own \<open>try\<close>;
  a constructor that raises leaves the dictionary as it was.
\<close>

definition try_add ::
  "('w, 'c) installation \<Rightarrow> string \<Rightarrow> (string \<rightharpoonup> ('w, 'c) source) \<Rightarrow> (string \<rightharpoonup> ('w, 'c) source)" where
  "try_add inst key srcs =
     (case new_source inst key of
        Returns client \<Rightarrow> srcs(key \<mapsto> client)
      | Raises e \<Rightarrow> srcs)"

definition initialize_sources ::
  "config \<Rightarrow> ('w, 'c) installation \<Rightarrow> (string \<rightharpoonup> ('w, 'c) source)" where
  "initialize_sources cfg inst =
     (let s0 = Map.empty;
          s1 = (if get_or (internetarchive_enabled cfg) True
                then try_add inst ''internetarchive'' s0 else s0);
          s2 = (if get_or (jamendo_enabled cfg) True
                then try_add inst ''jamendo'' s1 else s1);
          s3 = (if get_or (deezer_enabled cfg) False \<and> get_or (deezer_arl_token cfg) [] \<noteq> []
                then (case deemix_available inst of
                        Returns True \<Rightarrow> try_add inst ''deezer'' s2
                      | Returns False \<Rightarrow> s2
                      | Raises e \<Rightarrow> s2)
                else s2)
      in try_add inst ''youtube'' s3)"

definition new_multi_source_downloader ::
  "config \<Rightarrow> ('w, 'c) installation \<Rightarrow> ('w, 'c) multi_source_downloader" where
  "new_multi_source_downloader cfg inst =
     \<lparr>sources = initialize_sources cfg inst,
      source_priority = get_or (download_source_priority cfg) [''deezer'', ''youtube'']\<rparr>"

text \<open>
  Adding an event to the trace, and the two calls to a source, each recorded
  in the trace with the world it leaves behind.
\<close>

definition emit :: "event \<Rightarrow> 'w run \<Rightarrow> 'w run" where
  "emit e s = s\<lparr>calls := calls s @ [e]\<rparr>"

definition call_search ::
  "string \<Rightarrow> ('w, 'c) source \<Rightarrow> track \<Rightarrow> nat \<Rightarrow> 'w run \<Rightarrow> 'c option outcome \<times> 'w run" where
  "call_search key client t n s =
     (case search_track client t n (world s) of
        (r, w) \<Rightarrow> (r, emit (Search key n) (s\<lparr>world := w\<rparr>)))"

definition call_download ::
  "string \<Rightarrow> ('w, 'c) source \<Rightarrow> 'c \<Rightarrow> track \<Rightarrow> 'w run \<Rightarrow> string option outcome \<times> 'w run" where
  "call_download key client item t s =
     (case download_track client item t (world s) of
        (r, w) \<Rightarrow> (r, emit (Fetch key) (s\<lparr>world := w\<rparr>)))"

text \<open>\<open>if result:\<close> on an optional path: \<open>None\<close> and the empty string are falsy.\<close>

definition truthy :: "string option \<Rightarrow> bool" where
  "truthy result = (case result of Some p \<Rightarrow> p \<noteq> [] | None \<Rightarrow> False)"

text \<open>
  \<open>_download_from_internetarchive\<close>, \<open>_download_from_jamendo\<close> and
  \<open>_download_from_deezer\<close> have the same body, up to the key of the source:
  search, return \<open>None\<close> when nothing is found, otherwise download and return
  the path; every exception is caught and gives \<open>None\<close>.
\<close>

definition search_then_download ::
  "string \<Rightarrow> (string \<rightharpoonup> ('w, 'c) source) \<Rightarrow> track \<Rightarrow> 'w run \<Rightarrow> string option outcome \<times> 'w run" where
  "search_then_download key srcs t s =
     (case srcs key of
        None \<Rightarrow> (Returns None, s)
      | Some client \<Rightarrow>
          (case call_search key client t 0 s of
             (Raises e, s1) \<Rightarrow> (Returns None, s1)
           | (Returns None, s1) \<Rightarrow> (Returns None, s1)
           | (Returns (Some item), s1) \<Rightarrow>
               (case call_download key client item t s1 of
                  (Raises e, s2) \<Rightarrow> (Returns None, s2)
                | (Returns output_path, s2) \<Rightarrow> (Returns output_path, s2))))"

definition download_from_internetarchive ::
  "(string \<rightharpoonup> ('w, 'c) source) \<Rightarrow> track \<Rightarrow> 'w run \<Rightarrow> string option outcome \<times> 'w run" where
  "download_from_internetarchive = search_then_download ''internetarchive''"

definition download_from_jamendo ::
  "(string \<rightharpoonup> ('w, 'c) source) \<Rightarrow> track \<Rightarrow> 'w run \<Rightarrow> string option outcome \<times> 'w run" where
  "download_from_jamendo = search_then_download ''jamendo''"

definition download_from_deezer ::
  "(string \<rightharpoonup> ('w, 'c) source) \<Rightarrow> track \<Rightarrow> 'w run \<Rightarrow> string option outcome \<times> 'w run" where
  "download_from_deezer = search_then_download ''deezer''"

text \<open>
  \<open>_download_from_youtube\<close>: the loop \<open>for attempt in range(max_retries)\<close>,
  whose body is one \<open>try\<close>. A search without result, a download without
  result and an exception all go on to the next attempt, except that a search
  without result on the last attempt returns at once. The random delay before
  a retry is part of the world.
\<close>

definition max_retries :: nat where
  "max_retries = 2"

fun youtube_attempts ::
  "nat list \<Rightarrow> (string \<rightharpoonup> ('w, 'c) source) \<Rightarrow> track \<Rightarrow> 'w run \<Rightarrow> string option outcome \<times> 'w run" where
  "youtube_attempts [] srcs t s = (Returns None, s)"
| "youtube_attempts (attempt # rest) srcs t s =
     (case srcs ''youtube'' of
        None \<Rightarrow> (Returns None, s)
      | Some youtube \<Rightarrow>
          (case call_search ''youtube'' youtube t attempt s of
             (Raises e, s1) \<Rightarrow> youtube_attempts rest srcs t s1
           | (Returns None, s1) \<Rightarrow>
               (if attempt < max_retries - 1 then youtube_attempts rest srcs t s1
                else (Returns None, s1))
           | (Returns (Some youtube_url), s1) \<Rightarrow>
               (case call_download ''youtube'' youtube youtube_url t s1 of
                  (Raises e, s2) \<Rightarrow> youtube_attempts rest srcs t s2
                | (Returns output_path, s2) \<Rightarrow>
                    (if truthy output_path then (Returns output_path, s2)
                     else youtube_attempts rest srcs t s2))))"

definition download_from_youtube ::
  "(string \<rightharpoonup> ('w, 'c) source) \<Rightarrow> track \<Rightarrow> 'w run \<Rightarrow> string option outcome \<times> 'w run" where
  "download_from_youtube srcs t s = youtube_attempts [0..<max_retries] srcs t s"

text \<open>
  The \<open>if\<close>/\<open>elif\<close> chain of \<open>download\<close> that picks the function for a
  source name; \<open>None\<close> is its final \<open>else: continue\<close>.
\<close>

definition dispatch ::
  "string \<Rightarrow> (string \<rightharpoonup> ('w, 'c) source) \<Rightarrow> track \<Rightarrow> 'w run
     \<Rightarrow> (string option outcome \<times> 'w run) option" where
  "dispatch source srcs t s =
     (if source = ''internetarchive'' then Some (download_from_internetarchive srcs t s)
      else if source = ''jamendo'' then Some (download_from_jamendo srcs t s)
      else if source = ''deezer'' then Some (download_from_deezer srcs t s)
      else if source = ''youtube'' then Some (download_from_youtube srcs t s)
      else None)"

text \<open>
  \<open>download\<close>: the loop over \<open>source_priority\<close>. A name that is not a key
  of \<open>sources\<close> is skipped; the attempt runs inside \<open>try\<close>, and an exception
  is logged and followed by \<open>continue\<close>; a truthy result is returned after
  \<open>last_source\<close> is set; after the loop the failure is logged and \<open>None\<close> is
  returned.
\<close>

fun download_loop ::
  "(string \<rightharpoonup> ('w, 'c) source) \<Rightarrow> track \<Rightarrow> string list \<Rightarrow> 'w run \<Rightarrow> string option outcome \<times> 'w run" where
  "download_loop srcs t [] s = (Returns None, emit AllFailed s)"
| "download_loop srcs t (source # rest) s =
     (if source \<notin> dom srcs then download_loop srcs t rest s
      else
        (case dispatch source srcs t (emit (Attempting source) s) of
           None \<Rightarrow> download_loop srcs t rest (emit (Attempting source) s)
         | Some (Raises e, s1) \<Rightarrow> download_loop srcs t rest (emit (Errored source e) s1)
         | Some (Returns result, s1) \<Rightarrow>
             (if truthy result
              then (Returns result, emit (Succeeded source) (s1\<lparr>last_source := Some source\<rparr>))
              else download_loop srcs t rest (emit (Failed source) s1))))"

definition download ::
  "('w, 'c) multi_source_downloader \<Rightarrow> track \<Rightarrow> 'w run \<Rightarrow> string option outcome \<times> 'w run" where
  "download d t s = download_loop (sources d) t (source_priority d) s"

section \<open>Reading a trace\<close>

text \<open>
  The sources that a trace attempted, in order; the sources whose methods it
  called; the sources it reported as successful.
\<close>

fun is_call_of :: "string \<Rightarrow> event \<Rightarrow> bool" where
  "is_call_of source (Search key n) = (key = source)"
| "is_call_of source (Fetch key) = (key = source)"
| "is_call_of source e = False"

fun callers :: "event list \<Rightarrow> string list" where
  "callers [] = []"
| "callers (Search key n # es) = key # callers es"
| "callers (Fetch key # es) = key # callers es"
| "callers (e # es) = callers es"

fun attempted :: "event list \<Rightarrow> string list" where
  "attempted [] = []"
| "attempted (Attempting source # es) = source # attempted es"
| "attempted (e # es) = attempted es"

fun successes :: "event list \<Rightarrow> string list" where
  "successes [] = []"
| "successes (Succeeded source # es) = source # successes es"
| "successes (e # es) = successes es"

text \<open>The names that \<open>dispatch\<close> knows.\<close>

definition known_sources :: "string list" where
  "known_sources = [''internetarchive'', ''jamendo'', ''deezer'', ''youtube'']"

text \<open>
  \<open>client_step key s s'\<close>: from \<open>s\<close> to \<open>s'\<close> only calls to the source
  \<open>key\<close> were added to the trace, and \<open>last_source\<close> was not changed.
\<close>

definition client_step :: "string \<Rightarrow> 'w run \<Rightarrow> 'w run \<Rightarrow> bool" where
  "client_step key s s' =
     (last_source s' = last_source s \<and>
      (\<exists>new. calls s' = calls s @ new \<and> (\<forall>e \<in> set new. is_call_of key e)))"

text \<open>
  \<open>fallback_run srcs prio s res new\<close>: the run that started in \<open>s\<close> over the
  priority list \<open>prio\<close> ended in \<open>res\<close> after adding the events \<open>new\<close>; the
  attempted sources are a prefix of the active part of the list, calls went to
  attempted sources only, and either the last event reports the success of the
  last attempted source or every active source was attempted without success.
\<close>

definition fallback_run ::
  "(string \<rightharpoonup> ('w, 'c) source) \<Rightarrow> string list \<Rightarrow> 'w run
     \<Rightarrow> string option outcome \<times> 'w run \<Rightarrow> event list \<Rightarrow> bool" where
  "fallback_run srcs prio s res new =
     (calls (snd res) = calls s @ new
      \<and> prefix (attempted new) (filter (\<lambda>x. x \<in> dom srcs) prio)
      \<and> set (callers new) \<subseteq> set (attempted new)
      \<and> (case fst res of
            Raises e \<Rightarrow> False
          | Returns result \<Rightarrow>
              (if truthy result
               then attempted new \<noteq> []
                    \<and> (\<exists>pre. new = pre @ [Succeeded (last (attempted new))] \<and> successes pre = [])
                    \<and> last_source (snd res) = Some (last (attempted new))
               else result = None
                    \<and> attempted new = filter (\<lambda>x. x \<in> dom srcs) prio
                    \<and> successes new = []
                    \<and> last_source (snd res) = last_source s)))"

section \<open>Concrete inputs\<close>

text \<open>A request, its file, and ledgers without and with an entry for it.\<close>

definition song :: track where
  "song = \<lparr>artist = ''Artist'', name = ''Song'', album = ''Album'',
           duration_ms = Some 200000, track_number = Some 1\<rparr>"

definition song_file :: string where
  "song_file = ''downloads/Artist/Album/01 - Artist - Song.mp3''"

definition empty_tracker :: tracker where
  "empty_tracker = \<lparr>completed_tracks = Map.empty, tracker_file_writes = []\<rparr>"

definition song_entry :: tracked_info where
  "song_entry = \<lparr>info_artist = ''Artist'', info_name = ''Song'', info_album = ''Album'',
                 info_file = song_file, info_size = Some 5000000, info_format = Some ''mp3''\<rparr>"

definition song_tracker :: tracker where
  "song_tracker =
     \<lparr>completed_tracks = [get_track_id id song \<mapsto> song_entry], tracker_file_writes = []\<rparr>"

definition song_fs :: filesystem where
  "song_fs = [song_file \<mapsto> 5000000]"

text \<open>
  A track of 191200 milliseconds and the float nearest to 219.88 seconds, which
  is a little less than 219.88.
\<close>

definition boundary_track :: track where
  "boundary_track = \<lparr>artist = ''Artist'', name = ''Long Song'', album = ''Album'',
                     duration_ms = Some 191200, track_number = Some 2\<rparr>"

definition boundary_length :: rat where
  "boundary_length = 1934084933723095 / 8796093022208"

text \<open>A request whose artist contains a path separator.\<close>

definition acdc :: track where
  "acdc = \<lparr>artist = ''AC/DC'', name = ''Back In Black'', album = ''Back In Black'',
           duration_ms = Some 255000, track_number = Some 6\<rparr>"

text \<open>
  Search results for \<open>song\<close>: a partial match of artist and title without
  duration, two exact matches 5 seconds off, and an exact match 15 seconds off.
\<close>

definition partial_hit :: jamendo_result where
  "partial_hit = \<lparr>jam_id = Some ''1204669'', artist_name = Some ''The Artist Band'',
                  jam_name = Some ''Song (Live)'', duration = None\<rparr>"

definition exact_hit :: jamendo_result where
  "exact_hit = \<lparr>jam_id = Some ''77'', artist_name = Some ''ARTIST'',
                jam_name = Some ''song'', duration = Some 205\<rparr>"

definition late_exact_hit :: jamendo_result where
  "late_exact_hit = \<lparr>jam_id = Some ''78'', artist_name = Some ''Artist'',
                     jam_name = Some ''Song'', duration = Some 195\<rparr>"

definition far_hit :: jamendo_result where
  "far_hit = \<lparr>jam_id = Some ''79'', artist_name = Some ''ARTIST'',
              jam_name = Some ''song'', duration = Some 215\<rparr>"

definition archive_item :: ia_item where
  "archive_item =
     \<lparr>item_identifier = Some ''artist-live-1999'', item_title = Some ''Artist - Song'',
      item_creator = Some ''Artist'', item_format = Some (FormatList [''Flac'', ''Metadata''])\<rparr>"

definition archive_miss :: ia_item where
  "archive_miss =
     \<lparr>item_identifier = Some ''other'', item_title = Some ''Something else'',
      item_creator = None, item_format = Some (FormatText ''Flac'')\<rparr>"



text \<open>A response whose stream breaks after 50 bytes.\<close>

definition broken_response :: response where
  "broken_response =
     \<lparr>raise_for_status = None, content_type = Some ''audio/flac'', total_size = Returns 100000,
      iter_content = [replicate 50 (CHR ''f'')],
      iter_content_error = Some ''ChunkedEncodingError''\<rparr>"

definition serving :: "response \<Rightarrow> http" where
  "serving r = \<lparr>mkdir_error = None, get_file = Returns r, open_error = None, unlink_error = None\<rparr>"

text \<open>
  Sources over a world that counts the calls made: one that finds nothing, one
  whose search raises, one whose download raises, one that delivers a file.
\<close>

definition nothing_found :: "(nat, string) source" where
  "nothing_found =
     \<lparr>search_track = (\<lambda>t n w. (Returns None, Suc w)),
      download_track = (\<lambda>item t w. (Returns None, Suc w))\<rparr>"

definition search_raises :: "(nat, string) source" where
  "search_raises =
     \<lparr>search_track = (\<lambda>t n w. (Raises ''ConnectionError'', Suc w)),
      download_track = (\<lambda>item t w. (Returns None, Suc w))\<rparr>"

definition download_raises :: "(nat, string) source" where
  "download_raises =
     \<lparr>search_track = (\<lambda>t n w. (Returns (Some ''https://youtu.be/x''), Suc w)),
      download_track = (\<lambda>item t w. (Raises ''DownloadError'', Suc w))\<rparr>"

definition delivers :: "string \<Rightarrow> (nat, string) source" where
  "delivers p =
     \<lparr>search_track = (\<lambda>t n w. (Returns (Some ''hit''), Suc w)),
      download_track = (\<lambda>item t w. (Returns (Some p), Suc w))\<rparr>"

definition jamendo_file :: string where
  "jamendo_file = ''downloads/Artist/Artist - Song.flac''"

definition four_sources :: config where
  "four_sources =
     \<lparr>internetarchive_enabled = None, jamendo_enabled = None, deezer_enabled = None,
      deezer_arl_token = None,
      download_source_priority = Some [''deezer'', ''internetarchive'', ''jamendo'', ''youtube'']\<rparr>"

definition working_installation :: "(nat, string) installation" where
  "working_installation =
     \<lparr>new_source = (\<lambda>key. if key = ''internetarchive'' then Returns nothing_found
                          else if key = ''jamendo'' then Returns (delivers jamendo_file)
                          else if key = ''youtube'' then Returns (delivers song_file)
                          else Raises ''ImportError''),
      deemix_available = Returns False\<rparr>"

definition failing_installation :: "(nat, string) installation" where
  "failing_installation =
     \<lparr>new_source = (\<lambda>key. if key = ''internetarchive'' then Returns nothing_found
                          else if key = ''jamendo'' then Returns search_raises
                          else if key = ''youtube'' then Returns download_raises
                          else Raises ''ImportError''),
      deemix_available = Returns False\<rparr>"

definition working_downloader :: "(nat, string) multi_source_downloader" where
  "working_downloader = new_multi_source_downloader four_sources working_installation"

definition failing_downloader :: "(nat, string) multi_source_downloader" where
  "failing_downloader = new_multi_source_downloader four_sources failing_installation"

definition start :: "nat run" where
  "start = \<lparr>world = 0, last_source = None, calls = []\<rparr>"

section \<open>Properties of the ledger\<close>

lemma path_format_song_file: "path_format song_file = ''mp3''"
  by (simp add: path_format_def path_name_def song_file_def)

text \<open>
  C7. If \<open>mark_downloaded\<close> for a track and a file succeeds, then in every later
  state of the file system in which the file has the same size, \<open>is_downloaded\<close>
  for that track and file returns true. \<open>is_downloaded\<close> only reads the tracker,
  so this holds for every later call.
\<close>

theorem mark_then_is_downloaded:
  assumes "mark_downloaded md5 tr fs t f = Returns tr'"
    and "fs' f = fs f"
  shows "is_downloaded md5 tr' fs' t f"
proof -
  from assms(1) obtain n where n: "fs f = Some n"
    by (auto simp: mark_downloaded_def Let_def split: option.splits)
  with assms(1) have "\<exists>e. completed_tracks tr' (get_track_id md5 t) = Some e \<and> info_size e = Some n"
    by (auto simp: mark_downloaded_def Let_def save_tracker_def)
  with n assms(2) show ?thesis
    by (auto simp: is_downloaded_def Let_def)
qed

theorem mark_then_is_downloaded_witness:
  "mark_downloaded id empty_tracker song_fs song song_file
     = Returns (song_tracker\<lparr>tracker_file_writes := [completed_tracks song_tracker]\<rparr>)
   \<and> is_downloaded id (song_tracker\<lparr>tracker_file_writes := [completed_tracks song_tracker]\<rparr>) song_fs song song_file"
proof -
  have m: "mark_downloaded id empty_tracker song_fs song song_file
             = Returns (song_tracker\<lparr>tracker_file_writes := [completed_tracks song_tracker]\<rparr>)"
    by (simp add: mark_downloaded_def Let_def song_fs_def empty_tracker_def song_tracker_def
        save_tracker_def song_entry_def song_def path_format_song_file)
  from mark_then_is_downloaded [OF m, of song_fs] m show ?thesis by simp
qed

text \<open>
  C9. \<open>remove_track\<close> for a track whose identity is not in the ledger returns
  the tracker as it was: the dictionary is unchanged and nothing is written.
  When the identity is present, that key is deleted, every other key keeps its
  entry, and the new dictionary is written once.
\<close>

theorem remove_track_frame:
  "(get_track_id md5 t \<notin> dom (completed_tracks tr) \<longrightarrow> remove_track md5 tr t = tr)
   \<and> (get_track_id md5 t \<in> dom (completed_tracks tr) \<longrightarrow>
        completed_tracks (remove_track md5 tr t) (get_track_id md5 t) = None
        \<and> (\<forall>k. k \<noteq> get_track_id md5 t \<longrightarrow>
              completed_tracks (remove_track md5 tr t) k = completed_tracks tr k)
        \<and> tracker_file_writes (remove_track md5 tr t)
            = tracker_file_writes tr @ [completed_tracks (remove_track md5 tr t)])"
  by (simp add: remove_track_def Let_def save_tracker_def)

theorem remove_track_frame_witness:
  "remove_track id empty_tracker song = empty_tracker
   \<and> completed_tracks (remove_track id song_tracker song) (get_track_id id song) = None
   \<and> tracker_file_writes (remove_track id song_tracker song) = [Map.empty]"
proof -
  have absent: "get_track_id id song \<notin> dom (completed_tracks empty_tracker)"
    by (simp add: empty_tracker_def)
  have present: "get_track_id id song \<in> dom (completed_tracks song_tracker)"
    by (simp add: song_tracker_def)
  have "remove_track id empty_tracker song = empty_tracker"
    using remove_track_frame [of id song empty_tracker] absent by blast
  moreover have "completed_tracks (remove_track id song_tracker song) (get_track_id id song) = None"
    using remove_track_frame [of id song song_tracker] present by blast
  moreover have "tracker_file_writes (remove_track id song_tracker song) = [Map.empty]"
  proof -
    have w: "tracker_file_writes (remove_track id song_tracker song)
               = tracker_file_writes song_tracker @ [completed_tracks (remove_track id song_tracker song)]"
      using remove_track_frame [of id song song_tracker] present by blast
    have "completed_tracks (remove_track id song_tracker song) = Map.empty"
      by (simp add: remove_track_def Let_def save_tracker_def song_tracker_def)
    with w show ?thesis by (simp add: song_tracker_def)
  qed
  ultimately show ?thesis by blast
qed

text \<open>
  C1, as the code has it. \<open>is_downloaded\<close> returns true exactly when the file
  exists, the ledger has an entry for the identity of the track, and the
  recorded size equals the size of the file on disk. The skip is left to the
  caller of the tracker: \<open>MultiSourceDownloader.download\<close> has no access to the
  ledger and attempts its sources whatever the ledger holds.
\<close>

theorem is_downloaded_iff_current:
  "is_downloaded md5 tr fs t f \<longleftrightarrow>
     (\<exists>file_size entry. fs f = Some file_size
        \<and> completed_tracks tr (get_track_id md5 t) = Some entry
        \<and> info_size entry = Some file_size)"
  by (auto simp: is_downloaded_def Let_def split: option.splits)

theorem is_downloaded_iff_current_witness:
  "is_downloaded id song_tracker song_fs song song_file
   \<and> \<not> is_downloaded id song_tracker [song_file \<mapsto> 4999999] song song_file
   \<and> \<not> is_downloaded id empty_tracker song_fs song song_file"
proof -
  have "is_downloaded id song_tracker song_fs song song_file"
    using is_downloaded_iff_current [of id song_tracker song_fs song song_file]
    by (simp add: song_tracker_def song_fs_def song_entry_def)
  moreover have "\<not> is_downloaded id song_tracker [song_file \<mapsto> 4999999] song song_file"
    using is_downloaded_iff_current [of id song_tracker "[song_file \<mapsto> 4999999]" song song_file]
    by (simp add: song_tracker_def song_entry_def)
  moreover have "\<not> is_downloaded id empty_tracker song_fs song song_file"
    using is_downloaded_iff_current [of id empty_tracker song_fs song song_file]
    by (simp add: empty_tracker_def)
  ultimately show ?thesis by blast
qed

section \<open>Properties of the matchers\<close>

lemma best_loop_fst:
  "fst (best_loop sc rs (b, m)) = fold max (map sc rs) b"
  by (induction rs arbitrary: b m) (simp_all add: max_def)

lemma best_loop_snd:
  "snd (best_loop sc rs (b, m)) =
     (if \<forall>r \<in> set rs. sc r \<le> b then m
      else List.find (\<lambda>r. sc r = Max (sc ` set rs)) rs)"
proof (induction rs arbitrary: b m)
  case Nil
  then show ?case by simp
next
  case (Cons r rs)
  show ?case
  proof (cases "sc r > b")
    case True
    note gt = True
    show ?thesis
    proof (cases "\<forall>x \<in> set rs. sc x \<le> sc r")
      case True
      then have "Max (sc ` set (r # rs)) = sc r"
        by (auto intro!: Max_eqI)
      with gt True Cons show ?thesis by auto
    next
      case False
      then obtain x where x: "x \<in> set rs" "sc x > sc r" by force
      then have ne: "sc ` set rs \<noteq> {}" by auto
      from x have "Max (sc ` set rs) > sc r"
        by (meson List.finite_set Max_ge finite_imageI imageI less_le_trans not_le order.strict_trans2)
      then have "Max (sc ` set (r # rs)) = Max (sc ` set rs)" "sc r \<noteq> Max (sc ` set rs)"
        using ne by (auto simp: max_def)
      with gt False Cons show ?thesis by auto
    qed
  next
    case False
    note le = False
    show ?thesis
    proof (cases "\<forall>x \<in> set rs. sc x \<le> b")
      case True
      with le Cons show ?thesis by auto
    next
      case False
      then obtain x where x: "x \<in> set rs" "sc x > b" by force
      then have ne: "sc ` set rs \<noteq> {}" by auto
      from x have "Max (sc ` set rs) > b"
        by (meson List.finite_set Max_ge finite_imageI imageI less_le_trans not_le order.strict_trans2)
      with le have "Max (sc ` set rs) > sc r" by simp
      then have "Max (sc ` set (r # rs)) = Max (sc ` set rs)" "sc r \<noteq> Max (sc ` set rs)"
        using ne by (auto simp: max_def)
      with le False Cons show ?thesis by auto
    qed
  qed
qed

lemma select_best_eq:
  assumes "rs \<noteq> []"
  shows "select_best sc rs =
     (if Max (sc ` set rs) \<ge> 60 then List.find (\<lambda>r. sc r = Max (sc ` set rs)) rs else None)"
proof -
  let ?M = "Max (sc ` set rs)"
  have ne: "sc ` set rs \<noteq> {}" using assms by simp
  have "Max (set (0 # map sc rs)) = fold max (map sc rs) 0"
    by (rule Max.set_eq_fold)
  then have f: "fst (best_loop sc rs (0, None)) = max 0 ?M"
    using ne by (simp add: best_loop_fst)
  have s: "snd (best_loop sc rs (0, None)) =
     (if \<forall>r \<in> set rs. sc r \<le> 0 then None else List.find (\<lambda>r. sc r = ?M) rs)"
    by (rule best_loop_snd)
  have sd: "select_best sc rs = (if fst (best_loop sc rs (0, None)) \<ge> 60 then snd (best_loop sc rs (0, None)) else None)"
    by (simp add: select_best_def split: prod.splits)
  show ?thesis
  proof (cases "?M \<ge> 60")
    case True
    have "?M \<in> sc ` set rs" using ne by (intro Max_in) auto
    then obtain x where "x \<in> set rs" "sc x = ?M" by auto
    with True have "\<not> (\<forall>r \<in> set rs. sc r \<le> 0)" by force
    with True f s sd show ?thesis by simp
  next
    case False
    with f sd show ?thesis by (simp add: max_def)
  qed
qed

lemmas score_defs = jamendo_score_def jamendo_artist_points_def jamendo_title_points_def
  jamendo_duration_points_def duration_diff_def lower_def lower_char_def get_or_def

lemma song_scores:
  "jamendo_score song partial_hit = 60" "jamendo_score song exact_hit = 120"
  "jamendo_score song late_exact_hit = 120" "jamendo_score song far_hit = 100"
  by (simp_all add: score_defs song_def partial_hit_def exact_hit_def late_exact_hit_def far_hit_def)

lemma archive_scores: "ia_score song archive_miss = 0" "ia_score song archive_item = 120"
  by (simp_all add: ia_score_def lower_def lower_char_def get_or_def song_def
      archive_miss_def archive_item_def)

text \<open>
  C3. On a non-empty list of candidates, either matcher returns the first
  candidate that attains the maximum score when that maximum is at least 60, and
  \<open>None\<close> when it is below 60. In particular a Jamendo candidate with 30
  points for the artist, 30 for the title and no duration bonus scores 60 and is
  returned when it comes first and no other candidate scores more.
\<close>

theorem find_best_match_selects:
  "(rs \<noteq> [] \<longrightarrow>
      jamendo_find_best_match t rs =
        (if 60 \<le> Max (jamendo_score t ` set rs)
         then List.find (\<lambda>r. jamendo_score t r = Max (jamendo_score t ` set rs)) rs
         else None))
   \<and> (items \<noteq> [] \<longrightarrow>
      ia_find_best_match t items =
        (if 60 \<le> Max (ia_score t ` set items)
         then List.find (\<lambda>i. ia_score t i = Max (ia_score t ` set items)) items
         else None))
   \<and> (jamendo_artist_points t r = 30 \<and> jamendo_title_points t r = 30
       \<and> jamendo_duration_points t r = 0 \<and> (\<forall>x \<in> set others. jamendo_score t x \<le> 60)
       \<longrightarrow> jamendo_score t r = 60 \<and> jamendo_find_best_match t (r # others) = Some r)"
proof -
  have a: "rs \<noteq> [] \<longrightarrow>
      jamendo_find_best_match t rs =
        (if 60 \<le> Max (jamendo_score t ` set rs)
         then List.find (\<lambda>r. jamendo_score t r = Max (jamendo_score t ` set rs)) rs
         else None)"
    by (simp add: jamendo_find_best_match_def select_best_eq)
  have b: "items \<noteq> [] \<longrightarrow>
      ia_find_best_match t items =
        (if 60 \<le> Max (ia_score t ` set items)
         then List.find (\<lambda>i. ia_score t i = Max (ia_score t ` set items)) items
         else None)"
    by (simp add: ia_find_best_match_def select_best_eq)
  {
    assume h: "jamendo_artist_points t r = 30" "jamendo_title_points t r = 30"
      "jamendo_duration_points t r = 0" "\<forall>x \<in> set others. jamendo_score t x \<le> 60"
    then have s: "jamendo_score t r = 60" by (simp add: jamendo_score_def)
    have "Max (jamendo_score t ` set (r # others)) = 60"
      using h(4) s by (intro Max_eqI) auto
    then have "jamendo_find_best_match t (r # others) = Some r"
      using s by (simp add: jamendo_find_best_match_def select_best_eq)
    with s have "jamendo_score t r = 60 \<and> jamendo_find_best_match t (r # others) = Some r" ..
  }
  with a b show ?thesis by blast
qed

theorem find_best_match_selects_witness:
  "jamendo_find_best_match song [partial_hit] = Some partial_hit
   \<and> jamendo_find_best_match song [partial_hit, exact_hit, late_exact_hit] = Some exact_hit
   \<and> ia_find_best_match song [archive_miss, archive_item] = Some archive_item
   \<and> ia_find_best_match song [archive_miss] = None"
proof -
  have p: "jamendo_artist_points song partial_hit = 30 \<and> jamendo_title_points song partial_hit = 30
       \<and> jamendo_duration_points song partial_hit = 0 \<and> (\<forall>x \<in> set []. jamendo_score song x \<le> 60)"
    by (simp add: score_defs song_def partial_hit_def)
  have 1: "jamendo_find_best_match song [partial_hit] = Some partial_hit"
    using find_best_match_selects [of "[partial_hit]" song "[archive_miss]" partial_hit "[]"] p
    by blast
  have m: "Max (jamendo_score song ` set [partial_hit, exact_hit, late_exact_hit]) = 120"
    by (simp add: song_scores)
  have 2: "jamendo_find_best_match song [partial_hit, exact_hit, late_exact_hit] = Some exact_hit"
    using find_best_match_selects
      [of "[partial_hit, exact_hit, late_exact_hit]" song "[archive_miss]" partial_hit "[]"]
    by (simp add: m song_scores)
  have 3: "ia_find_best_match song [archive_miss, archive_item] = Some archive_item"
    using find_best_match_selects
      [of "[partial_hit]" song "[archive_miss, archive_item]" partial_hit "[]"]
    by (simp add: archive_scores)
  have 4: "ia_find_best_match song [archive_miss] = None"
    using find_best_match_selects [of "[partial_hit]" song "[archive_miss]" partial_hit "[]"]
    by (simp add: archive_scores)
  from 1 2 3 4 show ?thesis by blast
qed

text \<open>
  C8. For a track with a duration, the Jamendo score is the points for artist
  and title plus a flat 20 exactly when the candidate's duration is within 10
  seconds of the track's. Hence, between two candidates with the same artist
  and title, the one at least as close in duration never scores less, and a
  candidate 5 seconds off scores 20 more than one 15 seconds off.
\<close>

theorem duration_bonus_monotone:
  assumes "duration_ms t = Some ms"
  shows "jamendo_score t r = jamendo_artist_points t r + jamendo_title_points t r
           + (if duration_diff ms r \<le> 10 then 20 else 0)
         \<and> (artist_name r' = artist_name r \<and> jam_name r' = jam_name r
              \<and> duration_diff ms r \<le> duration_diff ms r'
            \<longrightarrow> jamendo_score t r' \<le> jamendo_score t r)
         \<and> (artist_name r' = artist_name r \<and> jam_name r' = jam_name r
              \<and> duration_diff ms r = 5 \<and> duration_diff ms r' = 15
            \<longrightarrow> jamendo_score t r = jamendo_score t r' + 20)"
  using assms
  by (simp add: jamendo_score_def jamendo_artist_points_def jamendo_title_points_def
      jamendo_duration_points_def)

theorem duration_bonus_monotone_witness:
  "duration_diff 200000 exact_hit = 5 \<and> duration_diff 200000 far_hit = 15
   \<and> jamendo_score song far_hit \<le> jamendo_score song exact_hit
   \<and> jamendo_score song exact_hit = jamendo_score song far_hit + 20"
proof -
  have d: "duration_ms song = Some 200000" by (simp add: song_def)
  have e: "artist_name far_hit = artist_name exact_hit \<and> jam_name far_hit = jam_name exact_hit
           \<and> duration_diff 200000 exact_hit = 5 \<and> duration_diff 200000 far_hit = 15"
    by (simp add: far_hit_def exact_hit_def duration_diff_def get_or_def)
  with duration_bonus_monotone [OF d, of exact_hit far_hit] show ?thesis by simp
qed

section \<open>Properties of the completeness check and of the output paths\<close>

lemma song_seconds: "true_divide 200000 1000 = Returns 200"
  by code_simp

lemma ratio_check:
  assumes "0 < file_duration" and "duration_ms t = Some ms"
    and "true_divide ms 1000 = Returns expected_duration" and "expected_duration \<noteq> 0"
  shows "is_file_complete (AudioFile (Some (Finite file_duration))) file_size t
         \<longleftrightarrow> float_le (Finite (literal 0.85)) (round_double (file_duration / expected_duration))
             \<and> float_le (round_double (file_duration / expected_duration)) (Finite (literal 1.15))"
  using assms by (simp add: is_file_complete_def Let_def get_or_def)

text \<open>
  C4, as the code has it. For a file whose duration is readable, finite and
  positive, and a track whose \<open>duration_ms\<close> divides by 1000 to a float that
  is not zero, the check returns true exactly when the ratio as the source
  computes it, the rounded quotient of the file's duration by that float, lies
  between the floats that \<open>0.85\<close> and \<open>1.15\<close> denote, bounds included.
\<close>

theorem duration_ratio_bounds:
  assumes "0 < file_duration" and "duration_ms t = Some ms"
    and "true_divide ms 1000 = Returns expected_duration" and "expected_duration \<noteq> 0"
  shows "is_file_complete (AudioFile (Some (Finite file_duration))) file_size t
         \<longleftrightarrow> float_le (Finite (literal 0.85)) (round_double (file_duration / expected_duration))
             \<and> float_le (round_double (file_duration / expected_duration)) (Finite (literal 1.15))"
  using assms by (rule ratio_check)

theorem duration_ratio_bounds_witness:
  "is_file_complete (AudioFile (Some (Finite 170))) 0 song
   \<and> is_file_complete (AudioFile (Some (Finite 230))) 0 song
   \<and> \<not> is_file_complete
         (AudioFile (Some (Finite (2987153190341837 / 17592186044416)))) 9000000 song
   \<and> \<not> is_file_complete
         (AudioFile (Some (Finite (4049721227424563 / 17592186044416)))) 9000000 song"
proof -
  have d: "duration_ms song = Some 200000" by (simp add: song_def)
  have e: "(200::rat) \<noteq> 0" by simp
  have c1: "float_le (Finite (literal 0.85)) (round_double (170 / 200))
             \<and> float_le (round_double (170 / 200)) (Finite (literal 1.15))"
    by code_simp
  have c2: "float_le (Finite (literal 0.85)) (round_double (230 / 200))
             \<and> float_le (round_double (230 / 200)) (Finite (literal 1.15))"
    by code_simp
  have c3: "\<not> float_le (Finite (literal 0.85))
                  (round_double (2987153190341837 / 17592186044416 / 200))"
    by code_simp
  have c4: "\<not> float_le (round_double (4049721227424563 / 17592186044416 / 200))
                  (Finite (literal 1.15))"
    by code_simp
  have p1: "(0::rat) < 170" and p2: "(0::rat) < 230"
    and p3: "(0::rat) < 2987153190341837 / 17592186044416"
    and p4: "(0::rat) < 4049721227424563 / 17592186044416"
    by simp_all
  have "is_file_complete (AudioFile (Some (Finite 170))) 0 song"
    using duration_ratio_bounds [OF p1 d song_seconds e, of 0] c1 by blast
  moreover have "is_file_complete (AudioFile (Some (Finite 230))) 0 song"
    using duration_ratio_bounds [OF p2 d song_seconds e, of 0] c2 by blast
  moreover have "\<not> is_file_complete
         (AudioFile (Some (Finite (2987153190341837 / 17592186044416)))) 9000000 song"
    using duration_ratio_bounds [OF p3 d song_seconds e, of 9000000] c3 by blast
  moreover have "\<not> is_file_complete
         (AudioFile (Some (Finite (4049721227424563 / 17592186044416)))) 9000000 song"
    using duration_ratio_bounds [OF p4 d song_seconds e, of 9000000] c4 by blast
  ultimately show ?thesis by blast
qed

text \<open>
  Against C4 as stated: the float nearest to 219.88 seconds is a positive
  duration whose exact ratio to 191200 milliseconds lies inside the interval
  from 0.85 to 1.15, and the check returns false: the quotient is computed from
  the rounded 191.2 and rounds to the float above the one that \<open>1.15\<close>
  denotes.
\<close>

theorem duration_ratio_rounding:
  "round_double boundary_length = Finite boundary_length
   \<and> 0 < boundary_length
   \<and> 85 / 100 \<le> boundary_length / (191200 / 1000)
   \<and> boundary_length / (191200 / 1000) \<le> 115 / 100
   \<and> \<not> is_file_complete (AudioFile (Some (Finite boundary_length))) 9000000 boundary_track"
proof -
  have r: "round_double boundary_length = Finite boundary_length"
    by code_simp
  have pos: "0 < boundary_length" by (simp add: boundary_length_def)
  have inside: "85 / 100 \<le> boundary_length / (191200 / 1000)
      \<and> boundary_length / (191200 / 1000) \<le> 115 / 100"
    by (simp add: boundary_length_def)
  have d: "duration_ms boundary_track = Some 191200" by (simp add: boundary_track_def)
  have e: "true_divide 191200 1000 = Returns (3363625971692339 / 17592186044416)"
    by code_simp
  have nz: "(3363625971692339 / 17592186044416 :: rat) \<noteq> 0" by simp
  have above: "\<not> float_le (round_double (boundary_length / (3363625971692339 / 17592186044416)))
                  (Finite (literal 1.15))"
    by code_simp
  have "\<not> is_file_complete (AudioFile (Some (Finite boundary_length))) 9000000 boundary_track"
    using ratio_check [OF pos d e nz, of 9000000] above by blast
  with r pos inside show ?thesis by blast
qed

text \<open>
  What \<open>_sanitize_filename\<close> guarantees for the YouTube path: no invalid
  character is left in its result.
\<close>

lemma replace_removes: "old \<noteq> new \<Longrightarrow> old \<notin> set (replace old new s)"
  by (auto simp: replace_def)

lemma replace_keeps_clean: "c \<noteq> new \<Longrightarrow> c \<notin> set s \<Longrightarrow> c \<notin> set (replace old new s)"
  by (auto simp: replace_def)

lemma fold_replace_clean:
  "new \<notin> set cs \<Longrightarrow> c \<in> set cs \<or> c \<notin> set s \<Longrightarrow> c \<noteq> new
     \<Longrightarrow> c \<notin> set (fold (\<lambda>char f. replace char new f) cs s)"
proof (induction cs arbitrary: s)
  case Nil
  then show ?case by simp
next
  case (Cons a cs)
  have step: "c \<in> set cs \<or> c \<notin> set (replace a new s)"
  proof (cases "c = a")
    case True
    with Cons.prems show ?thesis by (auto simp: replace_removes)
  next
    case False
    with Cons.prems show ?thesis by (auto simp: replace_keeps_clean)
  qed
  from Cons.prems have "new \<notin> set cs" by simp
  then have "c \<notin> set (fold (\<lambda>char f. replace char new f) cs (replace a new s))"
    using step Cons.prems(3) by (rule Cons.IH)
  then show ?case by simp
qed

lemma set_strip: "set (strip chars s) \<subseteq> set s"
  unfolding strip_def
  by (metis set_dropWhileD set_rev subsetI)

lemma sanitize_filename_clean:
  assumes "c \<in> set invalid_chars"
  shows "c \<notin> set (sanitize_filename s)"
proof -
  have "CHR ''_'' \<notin> set invalid_chars" by (simp add: invalid_chars_def)
  moreover from assms have "c \<noteq> CHR ''_''" by (auto simp: invalid_chars_def)
  ultimately have "c \<notin> set (fold (\<lambda>char f. replace char CHR ''_'' f) invalid_chars s)"
    using assms by (intro fold_replace_clean) auto
  with set_strip show ?thesis unfolding sanitize_filename_def by blast
qed

text \<open>
  C2. The Jamendo and Internet Archive clients build the output file from the
  raw artist and title. For the artist \<open>AC/DC\<close> both paths keep the separator
  and gain two directory levels, where \<open>_sanitize_filename\<close> gives \<open>AC_DC\<close>.
\<close>

theorem free_provider_paths_not_sanitized:
  "jamendo_output_file ''downloads'' acdc = ''downloads/AC/DC/AC/DC - Back In Black.flac''
   \<and> ia_output_file ''downloads'' acdc = ''downloads/AC/DC/AC/DC - Back In Black.flac''
   \<and> sanitize_filename (artist acdc) = ''AC_DC''"
  by (simp add: jamendo_output_file_def ia_output_file_def path_div_def Path_def path_str_def
      path_root_def path_parts_def acdc_def sanitize_filename_def invalid_chars_def
      replace_def strip_def)

section \<open>Properties of the Jamendo fetch\<close>



text \<open>
  Against C10 as stated: the stream breaks after 50 bytes. The output file was
  written and is smaller than 100000 bytes, \<open>download_track\<close> returns
  \<open>None\<close> from the handler, and the file of 50 bytes is still there.
\<close>

theorem jamendo_partial_file_left:
  "fst (jamendo_download_track (serving broken_response) Map.empty exact_hit ''./downloads'' song)
     = None
   \<and> snd (jamendo_download_track (serving broken_response) Map.empty exact_hit ''./downloads'' song)
        jamendo_file = Some 50"
  by (simp add: jamendo_download_track_def jamendo_output_file_def path_div_def Path_def
      path_str_def path_root_def path_parts_def song_def jamendo_file_def serving_def
      broken_response_def exact_hit_def get_or_def Let_def)

section \<open>Properties of the orchestrator\<close>

lemma attempted_append: "attempted (xs @ ys) = attempted xs @ attempted ys"
  by (induction xs rule: attempted.induct) simp_all

lemma successes_append: "successes (xs @ ys) = successes xs @ successes ys"
  by (induction xs rule: successes.induct) simp_all

lemma callers_append: "callers (xs @ ys) = callers xs @ callers ys"
  by (induction xs rule: callers.induct) simp_all

lemma attempted_client: "\<forall>e \<in> set es. is_call_of key e \<Longrightarrow> attempted es = []"
  by (induction es rule: attempted.induct) simp_all

lemma successes_client: "\<forall>e \<in> set es. is_call_of key e \<Longrightarrow> successes es = []"
  by (induction es rule: successes.induct) simp_all

lemma callers_client: "\<forall>e \<in> set es. is_call_of key e \<Longrightarrow> set (callers es) \<subseteq> {key}"
  by (induction es rule: callers.induct) simp_all

lemma client_step_refl: "client_step key s s"
  by (simp add: client_step_def)

lemma client_step_trans: "client_step key s s1 \<Longrightarrow> client_step key s1 s2 \<Longrightarrow> client_step key s s2"
  by (fastforce simp: client_step_def)

lemma call_search_step: "call_search key client t n s = (r, s1) \<Longrightarrow> client_step key s s1"
  by (auto simp: call_search_def client_step_def emit_def split: prod.splits)

lemma call_download_step: "call_download key client item t s = (r, s1) \<Longrightarrow> client_step key s s1"
  by (auto simp: call_download_def client_step_def emit_def split: prod.splits)

lemma search_then_download_step:
  assumes "search_then_download key srcs t s = (r, s1)"
  shows "client_step key s s1 \<and> (\<exists>v. r = Returns v)"
proof (cases "srcs key")
  case None
  with assms show ?thesis by (auto simp: search_then_download_def client_step_refl)
next
  case (Some client)
  obtain r1 s' where cs: "call_search key client t 0 s = (r1, s')"
    by (cases "call_search key client t 0 s")
  then have st1: "client_step key s s'" by (rule call_search_step)
  show ?thesis
  proof (cases "\<exists>item. r1 = Returns (Some item)")
    case False
    with Some cs assms have "r = Returns None \<and> s1 = s'"
      by (auto simp: search_then_download_def split: outcome.splits option.splits)
    with st1 show ?thesis by simp
  next
    case True
    then obtain item where item: "r1 = Returns (Some item)" by blast
    obtain r2 s'' where cd: "call_download key client item t s' = (r2, s'')"
      by (cases "call_download key client item t s'")
    have st2: "client_step key s s''"
      by (rule client_step_trans [OF st1 call_download_step [OF cd]])
    from Some cs item cd assms have "s1 = s'' \<and> (\<exists>v. r = Returns v)"
      by (auto simp: search_then_download_def split: outcome.splits)
    with st2 show ?thesis by simp
  qed
qed

lemma youtube_attempts_step:
  "youtube_attempts attempts srcs t s = (r, s1) \<Longrightarrow> client_step ''youtube'' s s1 \<and> (\<exists>v. r = Returns v)"
proof (induction attempts arbitrary: s)
  case Nil
  then show ?case by (auto simp: client_step_refl)
next
  case (Cons a attempts)
  show ?case
  proof (cases "srcs ''youtube''")
    case None
    with Cons.prems show ?thesis by (auto simp: client_step_refl)
  next
    case (Some yt)
    obtain r1 s' where cs: "call_search ''youtube'' yt t a s = (r1, s')"
      by (cases "call_search ''youtube'' yt t a s")
    then have st1: "client_step ''youtube'' s s'" by (rule call_search_step)
    show ?thesis
    proof (cases r1)
      case (Raises e)
      with Some cs Cons.prems have "youtube_attempts attempts srcs t s' = (r, s1)" by simp
      from Cons.IH [OF this] st1 show ?thesis by (blast intro: client_step_trans)
    next
      case (Returns found)
      show ?thesis
      proof (cases found)
        case None
        with Returns Some cs Cons.prems
        have "youtube_attempts attempts srcs t s' = (r, s1) \<or> (r, s1) = (Returns None, s')"
          by (auto split: if_splits)
        with Cons.IH st1 show ?thesis by (blast intro: client_step_trans)
      next
        case (Some url)
        obtain r2 s'' where cd: "call_download ''youtube'' yt url t s' = (r2, s'')"
          by (cases "call_download ''youtube'' yt url t s'")
        have st2: "client_step ''youtube'' s s''"
          by (rule client_step_trans [OF st1 call_download_step [OF cd]])
        from Some Returns \<open>srcs ''youtube'' = Some yt\<close> cs cd Cons.prems
        have "youtube_attempts attempts srcs t s'' = (r, s1) \<or> (\<exists>p. (r, s1) = (Returns p, s''))"
          by (auto split: outcome.splits if_splits)
        with Cons.IH st2 show ?thesis by (blast intro: client_step_trans)
      qed
    qed
  qed
qed

lemma dispatch_step:
  assumes "dispatch source srcs t s = Some (r, s1)"
  shows "client_step source s s1 \<and> (\<exists>v. r = Returns v) \<and> source \<in> set known_sources"
proof -
  from assms have k: "source \<in> set known_sources"
    by (simp add: dispatch_def known_sources_def split: if_splits)
  from assms have
    "search_then_download source srcs t s = (r, s1)
     \<or> (source = ''youtube'' \<and> youtube_attempts [0..<max_retries] srcs t s = (r, s1))"
    by (auto simp: dispatch_def download_from_internetarchive_def
        download_from_jamendo_def download_from_deezer_def download_from_youtube_def
        split: if_splits)
  then have "client_step source s s1 \<and> (\<exists>v. r = Returns v)"
    using search_then_download_step youtube_attempts_step by blast
  with k show ?thesis by blast
qed

lemma dispatch_None: "dispatch source srcs t s = None \<longleftrightarrow> source \<notin> set known_sources"
  by (simp add: dispatch_def known_sources_def)

lemma fallback_run_skip:
  assumes "fallback_run srcs rest s res new" and "source \<notin> dom srcs"
  shows "fallback_run srcs (source # rest) s res new"
proof -
  from assms(2) have eq: "filter (\<lambda>x. x \<in> dom srcs) (source # rest) = filter (\<lambda>x. x \<in> dom srcs) rest"
    by simp
  from assms(1) show ?thesis unfolding fallback_run_def eq .
qed

lemma fallback_run_failed:
  assumes run: "fallback_run srcs rest s2 res new"
    and src: "source \<in> dom srcs"
    and s2: "calls s2 = calls s @ Attempting source # mid" "last_source s2 = last_source s"
    and mid: "attempted mid = []" "successes mid = []" "set (callers mid) \<subseteq> {source}"
  shows "fallback_run srcs (source # rest) s res (Attempting source # mid @ new)"
proof -
  let ?new = "Attempting source # mid @ new"
  have att: "attempted ?new = source # attempted new"
    by (simp add: attempted_append mid)
  have c: "calls (snd res) = calls s @ ?new"
    using run s2 by (simp add: fallback_run_def)
  have p: "prefix (attempted ?new) (filter (\<lambda>x. x \<in> dom srcs) (source # rest))"
    unfolding att using run src by (simp add: fallback_run_def)
  have cl: "set (callers ?new) \<subseteq> set (attempted ?new)"
    unfolding att using run mid by (auto simp: callers_append fallback_run_def)
  from run obtain result where r: "fst res = Returns result"
    and cases: "if truthy result
               then attempted new \<noteq> []
                    \<and> (\<exists>pre. new = pre @ [Succeeded (last (attempted new))] \<and> successes pre = [])
                    \<and> last_source (snd res) = Some (last (attempted new))
               else result = None
                    \<and> attempted new = filter (\<lambda>x. x \<in> dom srcs) rest
                    \<and> successes new = []
                    \<and> last_source (snd res) = last_source s2"
    by (auto simp: fallback_run_def split: outcome.splits)
  show ?thesis
  proof (cases "truthy result")
    case True
    with cases obtain pre where ne: "attempted new \<noteq> []"
      and pre: "new = pre @ [Succeeded (last (attempted new))]" "successes pre = []"
      and ls: "last_source (snd res) = Some (last (attempted new))" by auto
    have l: "last (attempted ?new) = last (attempted new)" unfolding att using ne by simp
    have "?new = (Attempting source # mid @ pre) @ [Succeeded (last (attempted ?new))]"
      using pre(1) l by simp
    moreover have "successes (Attempting source # mid @ pre) = []"
      using pre(2) mid by (simp add: successes_append)
    ultimately have "\<exists>pre'. ?new = pre' @ [Succeeded (last (attempted ?new))] \<and> successes pre' = []"
      by blast
    moreover have "attempted ?new \<noteq> []" unfolding att by simp
    ultimately show ?thesis
      using True r c p cl ls l unfolding fallback_run_def by (simp only: if_True simp_thms outcome.case)
  next
    case False
    with cases have "result = None" "attempted new = filter (\<lambda>x. x \<in> dom srcs) rest"
      "successes new = []" "last_source (snd res) = last_source s2" by auto
    moreover have "attempted ?new = filter (\<lambda>x. x \<in> dom srcs) (source # rest)"
      unfolding att using src \<open>attempted new = filter (\<lambda>x. x \<in> dom srcs) rest\<close> by simp
    moreover have "successes ?new = []"
      using mid \<open>successes new = []\<close> by (simp add: successes_append)
    moreover have "last_source (snd res) = last_source s"
      using s2 \<open>last_source (snd res) = last_source s2\<close> by simp
    ultimately show ?thesis
      using False r c p cl unfolding fallback_run_def by (simp only: if_False simp_thms outcome.case)
  qed
qed

lemma fallback_run_succeeded:
  assumes src: "source \<in> dom srcs"
    and res: "fst res = Returns result" "truthy result"
      "calls (snd res) = calls s @ Attempting source # mid @ [Succeeded source]"
      "last_source (snd res) = Some source"
    and mid: "attempted mid = []" "successes mid = []" "set (callers mid) \<subseteq> {source}"
  shows "fallback_run srcs (source # rest) s res (Attempting source # mid @ [Succeeded source])"
proof -
  let ?new = "Attempting source # mid @ [Succeeded source]"
  have att: "attempted ?new = [source]" by (simp add: attempted_append mid)
  have "?new = (Attempting source # mid) @ [Succeeded (last (attempted ?new))]"
    unfolding att by simp
  moreover have "successes (Attempting source # mid) = []" using mid by simp
  ultimately have e: "\<exists>pre. ?new = pre @ [Succeeded (last (attempted ?new))] \<and> successes pre = []"
    by blast
  have cl: "set (callers ?new) \<subseteq> set (attempted ?new)"
    unfolding att using mid by (auto simp: callers_append)
  have p: "prefix (attempted ?new) (filter (\<lambda>x. x \<in> dom srcs) (source # rest))"
    unfolding att using src by simp
  have ne: "attempted ?new \<noteq> []" unfolding att by simp
  have ls: "last_source (snd res) = Some (last (attempted ?new))"
    unfolding att using res by simp
  show ?thesis
    using res(1,2,3) e cl p ne ls unfolding fallback_run_def by (simp only: if_True simp_thms outcome.case)
qed

lemma download_loop_run:
  "\<exists>new. fallback_run srcs prio s (download_loop srcs t prio s) new"
proof (induction prio arbitrary: s)
  case Nil
  have "fallback_run srcs [] s (download_loop srcs t [] s) [AllFailed]"
    by (simp add: fallback_run_def emit_def truthy_def)
  then show ?case ..
next
  case (Cons source rest)
  show ?case
  proof (cases "source \<in> dom srcs")
    case False
    from Cons.IH [of s] obtain new where "fallback_run srcs rest s (download_loop srcs t rest s) new" ..
    with False have "fallback_run srcs (source # rest) s (download_loop srcs t (source # rest) s) new"
      by (simp add: fallback_run_skip)
    then show ?thesis ..
  next
    case True
    let ?s0 = "emit (Attempting source) s"
    show ?thesis
    proof (cases "dispatch source srcs t ?s0")
      case None
      from Cons.IH [of ?s0] obtain new where
        run: "fallback_run srcs rest ?s0 (download_loop srcs t rest ?s0) new" ..
      have "fallback_run srcs (source # rest) s (download_loop srcs t rest ?s0)
              (Attempting source # [] @ new)"
        by (rule fallback_run_failed [OF run True]) (simp_all add: emit_def)
      with True None show ?thesis by auto
    next
      case (Some a)
      obtain r s1 where a: "a = (r, s1)" by (cases a)
      from dispatch_step [OF Some [unfolded a]] obtain v mid where
        v: "r = Returns v" and ls: "last_source s1 = last_source ?s0"
        and c: "calls s1 = calls ?s0 @ mid" and m: "\<forall>e \<in> set mid. is_call_of source e"
        by (auto simp: client_step_def)
      note mid = attempted_client [OF m] successes_client [OF m] callers_client [OF m]
      show ?thesis
      proof (cases "truthy v")
        case t: True
        let ?res = "(Returns v, emit (Succeeded source) (s1\<lparr>last_source := Some source\<rparr>))"
        have "fallback_run srcs (source # rest) s ?res (Attempting source # mid @ [Succeeded source])"
          by (rule fallback_run_succeeded [OF True _ t _ _ mid]) (simp_all add: emit_def c)
        moreover have "download_loop srcs t (source # rest) s = ?res"
          using True Some a v t by simp
        ultimately show ?thesis by auto
      next
        case f: False
        let ?s2 = "emit (Failed source) s1"
        from Cons.IH [of ?s2] obtain new where
          run: "fallback_run srcs rest ?s2 (download_loop srcs t rest ?s2) new" ..
        have "fallback_run srcs (source # rest) s (download_loop srcs t rest ?s2)
                (Attempting source # (mid @ [Failed source]) @ new)"
          by (rule fallback_run_failed [OF run True])
            (simp_all add: emit_def c ls mid attempted_append successes_append callers_append)
        moreover have "download_loop srcs t (source # rest) s = download_loop srcs t rest ?s2"
          using True Some a v f by simp
        ultimately show ?thesis by auto
      qed
    qed
  qed
qed


lemma download_loop_all_fail:
  assumes "\<forall>source \<in> set prio. \<forall>s0 r s1. dispatch source srcs t s0 = Some (r, s1) \<longrightarrow>
             (\<forall>p. r = Returns p \<longrightarrow> \<not> truthy p)"
  shows "fst (download_loop srcs t prio s) = Returns None"
  using assms
proof (induction prio arbitrary: s)
  case Nil
  then show ?case by simp
next
  case (Cons source rest)
  then have IH: "\<And>s'. fst (download_loop srcs t rest s') = Returns None" by simp
  show ?case
  proof (cases "source \<in> dom srcs")
    case False
    with IH show ?thesis by simp
  next
    case True
    show ?thesis
    proof (cases "dispatch source srcs t (emit (Attempting source) s)")
      case None
      with True IH show ?thesis by simp
    next
      case (Some a)
      obtain r s1 where a: "a = (r, s1)" by (cases a)
      with Some Cons.prems have "\<forall>p. r = Returns p \<longrightarrow> \<not> truthy p" by auto
      with True Some a IH show ?thesis by (cases r) simp_all
    qed
  qed
qed

lemma attempt_range: "[0..<max_retries] = [0, 1]"
  by (simp add: max_retries_def numeral_2_eq_2)

lemma working_sources:
  "sources working_downloader =
     [''internetarchive'' \<mapsto> nothing_found, ''jamendo'' \<mapsto> delivers jamendo_file,
      ''youtube'' \<mapsto> delivers song_file]"
  by (simp add: working_downloader_def new_multi_source_downloader_def initialize_sources_def
      four_sources_def working_installation_def try_add_def get_or_def Let_def)

lemma failing_sources:
  "sources failing_downloader =
     [''internetarchive'' \<mapsto> nothing_found, ''jamendo'' \<mapsto> search_raises,
      ''youtube'' \<mapsto> download_raises]"
  by (simp add: failing_downloader_def new_multi_source_downloader_def initialize_sources_def
      four_sources_def failing_installation_def try_add_def get_or_def Let_def)

lemma four_sources_priority:
  "source_priority working_downloader = [''deezer'', ''internetarchive'', ''jamendo'', ''youtube'']"
  "source_priority failing_downloader = [''deezer'', ''internetarchive'', ''jamendo'', ''youtube'']"
  by (simp_all add: working_downloader_def failing_downloader_def new_multi_source_downloader_def
      four_sources_def get_or_def)

lemma working_run:
  "download working_downloader song start
     = (Returns (Some jamendo_file),
        \<lparr>world = 3, last_source = Some ''jamendo'',
         calls = [Attempting ''internetarchive'', Search ''internetarchive'' 0,
                  Failed ''internetarchive'', Attempting ''jamendo'', Search ''jamendo'' 0,
                  Fetch ''jamendo'', Succeeded ''jamendo'']\<rparr>)"
  unfolding download_def working_sources four_sources_priority
  by (simp add: dispatch_def download_from_internetarchive_def download_from_jamendo_def
      search_then_download_def call_search_def call_download_def emit_def start_def
      nothing_found_def delivers_def truthy_def jamendo_file_def)

lemma failing_dispatch:
  assumes "dispatch source (sources failing_downloader) song s0 = Some (r, s1)"
  shows "r = Returns None"
  using assms unfolding failing_sources
  by (auto simp: dispatch_def download_from_internetarchive_def download_from_jamendo_def
      download_from_deezer_def download_from_youtube_def attempt_range
      search_then_download_def call_search_def call_download_def emit_def
      nothing_found_def search_raises_def download_raises_def truthy_def
      split: if_splits)



text \<open>
  C5. \<open>download\<close> always returns: no exception of a source leaves it. If every
  attempt on a source of the priority list ends without a truthy path, by
  returning a falsy value or by raising, then \<open>download\<close> returns \<open>None\<close>, and
  it has gone on to every active source of the list.
\<close>

theorem download_never_raises:
  "(\<exists>result. fst (download d t s) = Returns result)
   \<and> ((\<forall>source s0 r s1. source \<in> set (source_priority d)
          \<and> dispatch source (sources d) t s0 = Some (r, s1)
          \<longrightarrow> (\<forall>p. r = Returns p \<longrightarrow> \<not> truthy p))
        \<longrightarrow> fst (download d t s) = Returns None
            \<and> (\<exists>new. calls (snd (download d t s)) = calls s @ new
                  \<and> attempted new = filter (\<lambda>x. x \<in> dom (sources d)) (source_priority d)))"
proof -
  obtain new where run:
    "fallback_run (sources d) (source_priority d) s (download d t s) new"
    using download_loop_run [of "sources d" "source_priority d" s t]
    by (auto simp: download_def)
  then have a: "\<exists>result. fst (download d t s) = Returns result"
    by (auto simp: fallback_run_def split: outcome.splits)
  {
    assume h: "\<forall>source s0 r s1. source \<in> set (source_priority d)
          \<and> dispatch source (sources d) t s0 = Some (r, s1)
          \<longrightarrow> (\<forall>p. r = Returns p \<longrightarrow> \<not> truthy p)"
    then have n: "fst (download d t s) = Returns None"
      unfolding download_def by (intro download_loop_all_fail) blast
    with run have "calls (snd (download d t s)) = calls s @ new
        \<and> attempted new = filter (\<lambda>x. x \<in> dom (sources d)) (source_priority d)"
      by (simp add: fallback_run_def truthy_def)
    with n have "fst (download d t s) = Returns None
            \<and> (\<exists>new. calls (snd (download d t s)) = calls s @ new
                  \<and> attempted new = filter (\<lambda>x. x \<in> dom (sources d)) (source_priority d))"
      by blast
  }
  with a show ?thesis by blast
qed

theorem download_never_raises_witness:
  "fst (download failing_downloader song start) = Returns None
   \<and> attempted (calls (snd (download failing_downloader song start)))
       = [''internetarchive'', ''jamendo'', ''youtube'']"
proof -
  let ?run = "download failing_downloader song start"
  have h: "\<forall>source s0 r s1. source \<in> set (source_priority failing_downloader)
          \<and> dispatch source (sources failing_downloader) song s0 = Some (r, s1)
          \<longrightarrow> (\<forall>p. r = Returns p \<longrightarrow> \<not> truthy p)"
  proof (intro allI impI)
    fix source :: string and s0 s1 :: "nat run" and r :: "string option outcome" and p
    assume "source \<in> set (source_priority failing_downloader)
          \<and> dispatch source (sources failing_downloader) song s0 = Some (r, s1)"
    then have "dispatch source (sources failing_downloader) song s0 = Some (r, s1)" ..
    then have "r = Returns None" by (rule failing_dispatch)
    moreover assume "r = Returns p"
    ultimately show "\<not> truthy p" by (simp add: truthy_def)
  qed
  with download_never_raises [of failing_downloader song start]
  obtain new where res: "fst ?run = Returns None"
    and n: "calls (snd ?run) = calls start @ new"
    and a: "attempted new = filter (\<lambda>x. x \<in> dom (sources failing_downloader))
                              (source_priority failing_downloader)"
    by blast
  have "new = calls (snd ?run)" using n by (simp add: start_def)
  with a have "attempted (calls (snd ?run)) = [''internetarchive'', ''jamendo'', ''youtube'']"
    by (simp add: failing_sources four_sources_priority)
  with res show ?thesis by simp
qed

text \<open>
  Against C1 as stated: the ledger holds a current entry for \<open>song\<close> and its
  file, yet \<open>download\<close> calls the search of two sources and the fetch of one,
  and returns the path of the file it fetched, not the recorded path.
\<close>

theorem download_ignores_ledger:
  "is_downloaded id song_tracker song_fs song song_file
   \<and> fst (download working_downloader song start) = Returns (Some jamendo_file)
   \<and> jamendo_file \<noteq> song_file
   \<and> callers (calls (snd (download working_downloader song start)))
       = [''internetarchive'', ''jamendo'', ''jamendo'']"
  by (simp add: working_run is_downloaded_def Let_def song_tracker_def song_fs_def
      song_entry_def jamendo_file_def song_file_def)

end
